theory Spec2Isabelle
  imports Complex_Main
begin

section \<open>Numbers\<close>

text \<open>
  A JavaScript number is a binary64 value. The handlers, the store and the numeric
  examples below run on the real numbers these values denote, with exact arithmetic:
  the binary64 rounding of each operation, NaN and the infinities are not represented
  there, and sample values, areas, efficiencies and coordinates are finite numbers.
  Exact arithmetic differs from the code's where a binary64 operation rounds: a product
  that is an exact tie for \<open>toFixed\<close> over the reals may lie just below the tie in
  binary64, a sum of two numbers with two decimals is again such a number over the reals
  and in general is not in binary64, and a small number added to a very large one may
  not change it in binary64. What depends on such behaviour is therefore stated for the
  calculators over any arithmetic (section \<open>The calculators over any arithmetic\<close>
  below), of which the exact one and binary64 are instances.

  \<^verbatim>\<open>+(x).toFixed(2)\<close> is the idiom the calculator rounds with. \<open>toFixed\<close> works on the
  magnitude and puts the sign back; below \<open>10^21\<close> it picks the integer \<open>n\<close> with
  \<open>n / 100\<close> closest to the magnitude, the larger one on a tie, and from \<open>10^21\<close> on it
  prints the number itself. The unary plus reads the digits back.
\<close>

definition toFixed2 :: "real \<Rightarrow> real" where
  "toFixed2 x =
     (let a = \<bar>x\<bar>;
          m = (if 10 ^ 21 \<le> a then a else of_int \<lfloor>a * 100 + 1 / 2\<rfloor> / 100)
      in if x < 0 then - m else m)"

section \<open>Energy calculator (backend/utils/energyCalculator.js)\<close>

definition DAYS_PER_MONTH :: real where
  "DAYS_PER_MONTH = 30"

definition HOURS_PER_MONTH :: real where
  "HOURS_PER_MONTH = 24 * 30"

definition AIR_DENSITY :: real where
  "AIR_DENSITY = 1.225"

definition isDigit :: "char \<Rightarrow> bool" where
  "isDigit c = (c \<in> set ''0123456789'')"

text \<open>The regular expression \<^verbatim>\<open>/^\d{6}$/\<close>: exactly six decimal digits.\<close>

definition MONTH_KEY :: "string \<Rightarrow> bool" where
  "MONTH_KEY key = (length key = 6 \<and> list_all isDigit key)"

definition endsWith :: "string \<Rightarrow> string \<Rightarrow> bool" where
  "endsWith s suffix =
     (length suffix \<le> length s \<and> drop (length s - length suffix) s = suffix)"

text \<open>\<^verbatim>\<open>s.slice(i, j)\<close> for indices that are not negative.\<close>

definition slice :: "string \<Rightarrow> nat \<Rightarrow> nat \<Rightarrow> string" where
  "slice s i j = take (j - i) (drop i s)"

text \<open>
  The samples object, as the list of its own properties in the order of
  \<^verbatim>\<open>Object.keys\<close>, each key with the number stored under it.
\<close>

type_synonym samples = "(string \<times> real) list"

text \<open>
  One year of the result: the \<open>annual\<close> property and the month properties
  (\<open>''01''\<close>, \<open>''02''\<close>, ...). The result maps year strings to such objects.
\<close>

record year_record =
  annual :: real
  months :: "string \<rightharpoonup> real"

type_synonym energy_records = "string \<rightharpoonup> year_record"

datatype js_error = TypeError | SyntaxError | FsError | FetchError

text \<open>
  The guard of both loops (lines 20 and 57):
  \<^verbatim>\<open>if (!MONTH_KEY.test(key) || key.endsWith('13')) continue;\<close>
\<close>

definition skipped :: "string \<Rightarrow> bool" where
  "skipped key = (\<not> MONTH_KEY key \<or> endsWith key ''13'')"

text \<open>
  The tail of both loop bodies (lines 30-38 and 70-78, the same text): create the year
  object with \<open>annual: 0\<close> when it is absent, store the month, add to \<open>annual\<close>, round
  \<open>annual\<close>.
\<close>

definition accumulate :: "energy_records \<Rightarrow> string \<Rightarrow> string \<Rightarrow> real \<Rightarrow> energy_records" where
  "accumulate result year month energy =
     (let r0 = (case result year of None \<Rightarrow> \<lparr>annual = 0, months = Map.empty\<rparr> | Some r \<Rightarrow> r);
          r1 = r0\<lparr>months := (months r0)(month \<mapsto> energy)\<rparr>;
          r2 = r1\<lparr>annual := annual r1 + energy\<rparr>;
          r3 = r2\<lparr>annual := toFixed2 (annual r2)\<rparr>
      in result(year \<mapsto> r3))"

text \<open>Line 28: the monthly solar energy of one irradiance sample.\<close>

definition solar_energy :: "real \<Rightarrow> real \<Rightarrow> real \<Rightarrow> real" where
  "solar_energy area efficiency irradiance =
     toFixed2 (irradiance * area * efficiency * DAYS_PER_MONTH)"

text \<open>Lines 64-68: the monthly wind energy of one wind speed sample.\<close>

definition wind_energy :: "real \<Rightarrow> real \<Rightarrow> real \<Rightarrow> real" where
  "wind_energy area efficiency v =
     (let power = 0.5 * AIR_DENSITY * area * v ^ 3 * efficiency
      in toFixed2 (power * HOURS_PER_MONTH / 1000000))"

text \<open>One iteration of each loop, on the result built so far.\<close>

definition solar_step :: "real \<Rightarrow> real \<Rightarrow> energy_records \<Rightarrow> string \<times> real \<Rightarrow> energy_records" where
  "solar_step area efficiency result kv =
     (let key = fst kv in
      if skipped key then result
      else let year = slice key 0 4;
               month = slice key 4 6;
               irradiance = snd kv;
               energy = solar_energy area efficiency irradiance
           in accumulate result year month energy)"

definition wind_step :: "real \<Rightarrow> real \<Rightarrow> energy_records \<Rightarrow> string \<times> real \<Rightarrow> energy_records" where
  "wind_step area efficiency result kv =
     (let key = fst kv in
      if skipped key then result
      else let year = slice key 0 4;
               month = slice key 4 6;
               v = snd kv;
               energy = wind_energy area efficiency v
           in accumulate result year month energy)"

text \<open>
  A parameter with a default: \<open>None\<close> is the argument left out (or \<open>undefined\<close>).
\<close>

definition or_default :: "real option \<Rightarrow> real \<Rightarrow> real" where
  "or_default arg d = (case arg of None \<Rightarrow> d | Some x \<Rightarrow> x)"

text \<open>
  The two calculators. \<open>data\<close> is \<open>None\<close> when the caller passes \<open>undefined\<close> or
  \<open>null\<close>: \<^verbatim>\<open>Object.keys\<close> then throws a TypeError, which neither function catches.
\<close>

definition calculateSolarEnergy ::
    "samples option \<Rightarrow> real option \<Rightarrow> real option \<Rightarrow> js_error + energy_records" where
  "calculateSolarEnergy data area efficiency =
     (case data of
        None \<Rightarrow> Inl TypeError
      | Some d \<Rightarrow> Inr (foldl (solar_step (or_default area 1) (or_default efficiency 0.2)) Map.empty d))"

definition calculateWindEnergy ::
    "samples option \<Rightarrow> real option \<Rightarrow> real option \<Rightarrow> js_error + energy_records" where
  "calculateWindEnergy data area efficiency =
     (case data of
        None \<Rightarrow> Inl TypeError
      | Some d \<Rightarrow> Inr (foldl (wind_step (or_default area 1256.64) (or_default efficiency 0.4)) Map.empty d))"

text \<open>Reading a result: the \<open>annual\<close> property of a year and one month of a year.\<close>

definition annual_of :: "js_error + energy_records \<Rightarrow> string \<Rightarrow> real option" where
  "annual_of res year =
     (case res of Inl err \<Rightarrow> None | Inr r \<Rightarrow> map_option annual (r year))"

definition month_of :: "js_error + energy_records \<Rightarrow> string \<Rightarrow> string \<Rightarrow> real option" where
  "month_of res year month =
     (case res of
        Inl err \<Rightarrow> None
      | Inr r \<Rightarrow> (case r year of None \<Rightarrow> None | Some yr \<Rightarrow> months yr month))"

text \<open>
  The rounded energies of the processed keys of one year, in iteration order;
  \<open>energy_of\<close> is the monthly formula of the calculator at hand.
\<close>

definition year_energies :: "(real \<Rightarrow> real) \<Rightarrow> string \<Rightarrow> samples \<Rightarrow> real list" where
  "year_energies energy_of year d =
     map (\<lambda>kv. energy_of (snd kv)) (filter (\<lambda>kv. \<not> skipped (fst kv) \<and> slice (fst kv) 0 4 = year) d)"

text \<open>
  Both loop bodies are one pattern that differs in the monthly formula only; the proofs
  about the loops are done once, for any formula \<open>energy_of\<close>.
\<close>

definition gen_step :: "(real \<Rightarrow> real) \<Rightarrow> energy_records \<Rightarrow> string \<times> real \<Rightarrow> energy_records" where
  "gen_step energy_of result kv =
     (if skipped (fst kv) then result
      else accumulate result (slice (fst kv) 0 4) (slice (fst kv) 4 6) (energy_of (snd kv)))"

section \<open>The calculators over any arithmetic\<close>

text \<open>
  The operations the two calculators apply to numbers: reading a decimal literal,
  \<open>+\<close>, \<open>*\<close>, \<open>/\<close>, \<^verbatim>\<open>Math.pow\<close> with a literal exponent, and \<^verbatim>\<open>+(x).toFixed(2)\<close>.
\<close>

record arith =
  num_lit :: "real \<Rightarrow> real"
  num_add :: "real \<Rightarrow> real \<Rightarrow> real"
  num_mul :: "real \<Rightarrow> real \<Rightarrow> real"
  num_div :: "real \<Rightarrow> real \<Rightarrow> real"
  num_pow :: "real \<Rightarrow> nat \<Rightarrow> real"
  num_toFixed2 :: "real \<Rightarrow> real"

text \<open>Exact arithmetic on the reals: the arithmetic of the definitions above.\<close>

definition exact :: arith where
  "exact = \<lparr>num_lit = (\<lambda>x. x), num_add = (\<lambda>x y. x + y), num_mul = (\<lambda>x y. x * y),
            num_div = (\<lambda>x y. x / y), num_pow = (\<lambda>x n. x ^ n), num_toFixed2 = toFixed2\<rparr>"

text \<open>
  Binary64 arithmetic on the finite values in the normal range (no overflow, no
  subnormal numbers, no NaN): each operation is the exact one followed by rounding to
  the nearest number with a 53-bit significand, ties to the even significand.
  \<open>toFixed\<close> rounds the exact value of its argument and the unary plus reads the decimal
  back as the nearest binary64 value. \<^verbatim>\<open>Math.pow\<close> is taken as correctly rounded, which
  the language does not promise.
\<close>

definition round_even :: "real \<Rightarrow> int" where
  "round_even y =
     (let f = \<lfloor>y\<rfloor>; d = y - of_int f
      in if d < 1 / 2 then f else if 1 / 2 < d then f + 1 else if even f then f else f + 1)"

definition to_binary64 :: "real \<Rightarrow> real" where
  "to_binary64 x =
     (if x = 0 then 0
      else let e = \<lfloor>log 2 \<bar>x\<bar>\<rfloor> - 52
           in of_int (round_even (x / 2 powi e)) * 2 powi e)"

definition binary64 :: arith where
  "binary64 =
     \<lparr>num_lit = to_binary64,
      num_add = (\<lambda>x y. to_binary64 (x + y)),
      num_mul = (\<lambda>x y. to_binary64 (x * y)),
      num_div = (\<lambda>x y. to_binary64 (x / y)),
      num_pow = (\<lambda>x n. to_binary64 (x ^ n)),
      num_toFixed2 = (\<lambda>x. to_binary64 (toFixed2 x))\<rparr>"

text \<open>
  The calculators again, line by line as above, with every operation on numbers taken
  from the arithmetic \<open>a\<close>.
\<close>

definition accumulate_in ::
    "arith \<Rightarrow> energy_records \<Rightarrow> string \<Rightarrow> string \<Rightarrow> real \<Rightarrow> energy_records" where
  "accumulate_in a result year month energy =
     (let r0 = (case result year of
                  None \<Rightarrow> \<lparr>annual = num_lit a 0, months = Map.empty\<rparr>
                | Some r \<Rightarrow> r);
          r1 = r0\<lparr>months := (months r0)(month \<mapsto> energy)\<rparr>;
          r2 = r1\<lparr>annual := num_add a (annual r1) energy\<rparr>;
          r3 = r2\<lparr>annual := num_toFixed2 a (annual r2)\<rparr>
      in result(year \<mapsto> r3))"

definition solar_energy_in :: "arith \<Rightarrow> real \<Rightarrow> real \<Rightarrow> real \<Rightarrow> real" where
  "solar_energy_in a area efficiency irradiance =
     num_toFixed2 a
       (num_mul a (num_mul a (num_mul a irradiance area) efficiency) (num_lit a 30))"

definition wind_energy_in :: "arith \<Rightarrow> real \<Rightarrow> real \<Rightarrow> real \<Rightarrow> real" where
  "wind_energy_in a area efficiency v =
     (let power =
            num_mul a
              (num_mul a (num_mul a (num_mul a (num_lit a 0.5) (num_lit a 1.225)) area)
                 (num_pow a v 3))
              efficiency;
          hours = num_mul a (num_lit a 24) (num_lit a 30)
      in num_toFixed2 a (num_div a (num_mul a power hours) (num_lit a 1000000)))"

definition solar_step_in ::
    "arith \<Rightarrow> real \<Rightarrow> real \<Rightarrow> energy_records \<Rightarrow> string \<times> real \<Rightarrow> energy_records" where
  "solar_step_in a area efficiency result kv =
     (let key = fst kv in
      if skipped key then result
      else let year = slice key 0 4;
               month = slice key 4 6;
               irradiance = snd kv;
               energy = solar_energy_in a area efficiency irradiance
           in accumulate_in a result year month energy)"

definition wind_step_in ::
    "arith \<Rightarrow> real \<Rightarrow> real \<Rightarrow> energy_records \<Rightarrow> string \<times> real \<Rightarrow> energy_records" where
  "wind_step_in a area efficiency result kv =
     (let key = fst kv in
      if skipped key then result
      else let year = slice key 0 4;
               month = slice key 4 6;
               v = snd kv;
               energy = wind_energy_in a area efficiency v
           in accumulate_in a result year month energy)"

definition calculateSolarEnergy_in ::
    "arith \<Rightarrow> samples option \<Rightarrow> real option \<Rightarrow> real option \<Rightarrow> js_error + energy_records" where
  "calculateSolarEnergy_in a data area efficiency =
     (case data of
        None \<Rightarrow> Inl TypeError
      | Some d \<Rightarrow>
          Inr (foldl (solar_step_in a (or_default area (num_lit a 1))
                        (or_default efficiency (num_lit a 0.2))) Map.empty d))"

definition calculateWindEnergy_in ::
    "arith \<Rightarrow> samples option \<Rightarrow> real option \<Rightarrow> real option \<Rightarrow> js_error + energy_records" where
  "calculateWindEnergy_in a data area efficiency =
     (case data of
        None \<Rightarrow> Inl TypeError
      | Some d \<Rightarrow>
          Inr (foldl (wind_step_in a (or_default area (num_lit a 1256.64))
                        (or_default efficiency (num_lit a 0.4))) Map.empty d))"

text \<open>The pattern of both loops, for the proofs.\<close>

definition gen_step_in ::
    "arith \<Rightarrow> (real \<Rightarrow> real) \<Rightarrow> energy_records \<Rightarrow> string \<times> real \<Rightarrow> energy_records" where
  "gen_step_in a energy_of result kv =
     (if skipped (fst kv) then result
      else accumulate_in a result (slice (fst kv) 0 4) (slice (fst kv) 4 6) (energy_of (snd kv)))"

subsection \<open>The running annual total, as the specification words it\<close>

text \<open>
  Start from 0; for each month, add its rounded energy and round the total to 2 decimals
  again, with the addition and the rounding of the arithmetic at hand.
\<close>

definition running_annual :: "arith \<Rightarrow> real list \<Rightarrow> real" where
  "running_annual a energies =
     foldl (\<lambda>total e. num_toFixed2 a (num_add a total e)) (num_lit a 0) energies"

text \<open>
  For comparison: the total with no rounding between the additions, and the same total
  rounded once at the end.
\<close>

definition plain_total :: "arith \<Rightarrow> real list \<Rightarrow> real" where
  "plain_total a energies = foldl (num_add a) (num_lit a 0) energies"

definition rounded_once :: "arith \<Rightarrow> real list \<Rightarrow> real" where
  "rounded_once a energies = num_toFixed2 a (plain_total a energies)"

section \<open>Cache store (services/databaseService.js)\<close>

text \<open>
  What \<open>fetchNASAData\<close> returns: the two sample objects (\<open>None\<close> when the upstream
  answer lacks the parameter) and the metadata (latitude, longitude, elevation).
\<close>

record nasa_data =
  raw_solar :: "samples option"
  raw_wind :: "samples option"
  metadata :: "real \<times> real \<times> real"

text \<open>A cache entry; \<open>rawData\<close> is \<open>None\<close> for an entry stored without it.\<close>

record entry =
  latitude :: real
  longitude :: real
  solar :: energy_records
  wind :: energy_records
  rawData :: "nasa_data option"
  timestamp :: string

text \<open>
  The database file: absent, or present with a content that is either the JSON text of
  an array of entries or text that \<^verbatim>\<open>JSON.parse\<close> rejects (an empty or cut-off file
  among others). \<^verbatim>\<open>JSON.stringify\<close> followed by \<^verbatim>\<open>JSON.parse\<close> gives an entry back
  as it was. A file whose text parses to something that is not an array of entries
  (nothing in this module writes one) is outside this model.
\<close>

datatype content = Garbage | Json "entry list"

datatype db_file = NoFile | File content

text \<open>The effects a request can have, recorded in the order they happen.\<close>

datatype event = DbRead | DbWrite "entry list" | NasaFetch real real

text \<open>
  The state a request runs in: the file, what the file system lets the process do with
  it, and the effects so far. \<open>readable\<close>: reading the file, when there is one, succeeds.
  \<open>writable\<close>: creating the directory and writing the file succeed. \<open>tears\<close>: a write
  that fails has already cut the file off (a full disk), and leaves text that does not
  parse; otherwise a write that fails leaves the file untouched (no permission). No
  operation of this module changes the three.
\<close>

record world =
  disk :: db_file
  readable :: bool
  writable :: bool
  tears :: bool
  trace :: "event list"

type_synonym 'a io = "world \<Rightarrow> (js_error + 'a) \<times> world"

definition log_event :: "event \<Rightarrow> world \<Rightarrow> world" where
  "log_event ev w = w\<lparr>trace := trace w @ [ev]\<rparr>"

text \<open>
  \<^verbatim>\<open>fs.writeFileSync(DB_FILE, JSON.stringify(rows, null, 2))\<close>. A write changes the
  content and no permission: a file that could not be read before cannot be read after.
\<close>

definition writeFileSync :: "entry list \<Rightarrow> unit io" where
  "writeFileSync rows w =
     (let w1 = log_event (DbWrite rows) w
      in if writable w1 then (Inr (), w1\<lparr>disk := File (Json rows)\<rparr>)
         else if tears w1 then (Inl FsError, w1\<lparr>disk := File Garbage\<rparr>)
         else (Inl FsError, w1))"

definition readFileSync :: "content io" where
  "readFileSync w =
     (let w1 = log_event DbRead w
      in case disk w1 of
           NoFile \<Rightarrow> (Inl FsError, w1)
         | File c \<Rightarrow> if readable w1 then (Inr c, w1) else (Inl FsError, w1))"

definition JSON_parse :: "content \<Rightarrow> js_error + entry list" where
  "JSON_parse c = (case c of Garbage \<Rightarrow> Inl SyntaxError | Json rows \<Rightarrow> Inr rows)"

definition initializeDatabase :: "unit io" where
  "initializeDatabase w = (if disk w = NoFile then writeFileSync [] w else (Inr (), w))"

text \<open>\<open>readDatabase\<close>: the three steps of the \<open>try\<close> block, each failure caught.\<close>

definition readDatabase :: "entry list io" where
  "readDatabase w =
     (case initializeDatabase w of
        (Inl err, w1) \<Rightarrow> (Inr [], w1)
      | (Inr u, w1) \<Rightarrow>
          (case readFileSync w1 of
             (Inl err, w2) \<Rightarrow> (Inr [], w2)
           | (Inr data, w2) \<Rightarrow>
               (case JSON_parse data of
                  Inl err \<Rightarrow> (Inr [], w2)
                | Inr rows \<Rightarrow> (Inr rows, w2))))"

text \<open>\<open>writeDatabase\<close> logs a failure and throws it again.\<close>

definition writeDatabase :: "entry list \<Rightarrow> unit io" where
  "writeDatabase data w = writeFileSync data w"

text \<open>The test both \<open>find\<close> and \<open>filter\<close> apply to a stored entry.\<close>

definition close_to :: "real \<Rightarrow> entry \<Rightarrow> real \<Rightarrow> real \<Rightarrow> bool" where
  "close_to tolerance e lat lon =
     (\<bar>latitude e - lat\<bar> < tolerance \<and> \<bar>longitude e - lon\<bar> < tolerance)"

definition findByCoordinates :: "real \<Rightarrow> real \<Rightarrow> real option \<Rightarrow> entry option io" where
  "findByCoordinates lat lon tolerance w =
     (case readDatabase w of
        (Inl err, w1) \<Rightarrow> (Inl err, w1)
      | (Inr database, w1) \<Rightarrow>
          (Inr (List.find (\<lambda>e. close_to (or_default tolerance 0.01) e lat lon) database), w1))"

definition saveEnergyData :: "entry \<Rightarrow> entry io" where
  "saveEnergyData energyData w =
     (case readDatabase w of
        (Inl err, w1) \<Rightarrow> (Inl err, w1)
      | (Inr database, w1) \<Rightarrow>
          (let filteredDatabase =
                 filter (\<lambda>e. \<not> close_to 0.01 e (latitude energyData) (longitude energyData)) database;
               pushed = filteredDatabase @ [energyData]
           in case writeDatabase pushed w1 of
                (Inl err, w2) \<Rightarrow> (Inl err, w2)
              | (Inr u, w2) \<Rightarrow> (Inr energyData, w2)))"

definition getAllData :: "entry list io" where
  "getAllData w = readDatabase w"

subsection \<open>The store's invariant\<close>

text \<open>The entries the file retains, whether the process can read them or not.\<close>

definition retained :: "world \<Rightarrow> entry list" where
  "retained w = (case disk w of File (Json rows) \<Rightarrow> rows | File Garbage \<Rightarrow> [] | NoFile \<Rightarrow> [])"

text \<open>The entries a read of the store yields.\<close>

definition stored :: "world \<Rightarrow> entry list" where
  "stored w = (if readable w then retained w else [])"

text \<open>Two entries are near when they are within 0.01 degrees on both axes.\<close>

definition near :: "entry \<Rightarrow> entry \<Rightarrow> bool" where
  "near a b = close_to 0.01 a (latitude b) (longitude b)"

fun store_inv :: "entry list \<Rightarrow> bool" where
  "store_inv [] = True"
| "store_inv (e # es) = (list_all (\<lambda>x. \<not> near e x) es \<and> store_inv es)"

section \<open>Coordinate validation (utils/helpers.js)\<close>

text \<open>What \<open>parseFloat\<close> can return.\<close>

datatype parsed = NaN | NegInfinity | PosInfinity | Num real

definition isNaN :: "parsed \<Rightarrow> bool" where
  "isNaN p = (p = NaN)"

fun less_than :: "parsed \<Rightarrow> real \<Rightarrow> bool" where
  "less_than NaN c = False"
| "less_than NegInfinity c = True"
| "less_than PosInfinity c = False"
| "less_than (Num x) c = (x < c)"

fun greater_than :: "parsed \<Rightarrow> real \<Rightarrow> bool" where
  "greater_than NaN c = False"
| "greater_than NegInfinity c = False"
| "greater_than PosInfinity c = True"
| "greater_than (Num x) c = (x > c)"

text \<open>
  The number a parsed value is. The validation calls it on values that passed the NaN
  and range checks only, which are finite numbers.
\<close>

fun number_of :: "parsed \<Rightarrow> real" where
  "number_of (Num x) = x"
| "number_of NaN = 0"
| "number_of NegInfinity = 0"
| "number_of PosInfinity = 0"

datatype validation = Valid real real | Invalid string

text \<open>\<open>validateCoordinates\<close>; the built-in \<open>parseFloat\<close> is a parameter.\<close>

definition validateCoordinates :: "(string \<Rightarrow> parsed) \<Rightarrow> string \<Rightarrow> string \<Rightarrow> validation" where
  "validateCoordinates parseFloat lat lon =
     (let plat = parseFloat lat;
          plon = parseFloat lon
      in if isNaN plat \<or> isNaN plon then Invalid ''Invalid coordinate format''
         else if less_than plat (- 90) \<or> greater_than plat 90
           then Invalid ''Latitude must be between -90 and 90''
         else if less_than plon (- 180) \<or> greater_than plon 180
           then Invalid ''Longitude must be between -180 and 180''
         else Valid (number_of plat) (number_of plon))"

section \<open>Request handlers (controllers/energyController.js)\<close>

text \<open>
  What a handler reaches outside the process: \<open>parseFloat\<close>, the upstream fetch (which
  throws or returns the data) and the clock that stamps a new entry.
\<close>

record env =
  parseFloat :: "string \<Rightarrow> parsed"
  fetchNASAData :: "real \<Rightarrow> real \<Rightarrow> js_error + nasa_data"
  now :: string

text \<open>
  A response: the status and the body. An energy body carries the coordinates, the
  solar and wind records the route asks for, and the timestamp; a calculate body carries
  the coordinates, both records and, for a custom calculation, the parameters used.
\<close>

datatype body =
    ErrorBody string
  | EnergyBody real real "energy_records option" "energy_records option" string
  | CalculateBody real real energy_records energy_records "(real \<times> real \<times> real) option"

type_synonym response = "nat \<times> body"

definition fetchNASA :: "env \<Rightarrow> real \<Rightarrow> real \<Rightarrow> nasa_data io" where
  "fetchNASA e lat lon w = (fetchNASAData e lat lon, log_event (NasaFetch lat lon) w)"

text \<open>
  Lines 30-47 of \<open>getEnergyData\<close> and 115-131 of \<open>calculateEnergy\<close>, the same text:
  fetch, calculate with the default parameters, build the entry, save it.
\<close>

definition fetch_and_save :: "env \<Rightarrow> real \<Rightarrow> real \<Rightarrow> entry io" where
  "fetch_and_save e lat lon w =
     (case fetchNASA e lat lon w of
        (Inl err, w1) \<Rightarrow> (Inl err, w1)
      | (Inr nasaData, w1) \<Rightarrow>
          (case calculateSolarEnergy (raw_solar nasaData) None None of
             Inl err \<Rightarrow> (Inl err, w1)
           | Inr solarEnergy \<Rightarrow>
               (case calculateWindEnergy (raw_wind nasaData) None None of
                  Inl err \<Rightarrow> (Inl err, w1)
                | Inr windEnergy \<Rightarrow>
                    (let energyData =
                           \<lparr>latitude = lat, longitude = lon, solar = solarEnergy,
                            wind = windEnergy, rawData = Some nasaData, timestamp = now e\<rparr>
                     in case saveEnergyData energyData w1 of
                          (Inl err, w2) \<Rightarrow> (Inl err, w2)
                        | (Inr saved, w2) \<Rightarrow> (Inr energyData, w2)))))"

text \<open>The \<open>switch\<close> of \<open>getEnergyData\<close> (lines 51-79).\<close>

definition respond :: "string \<Rightarrow> real \<Rightarrow> real \<Rightarrow> entry \<Rightarrow> response" where
  "respond energy_type lat lon existingData =
     (if energy_type = ''solar''
        then (200, EnergyBody lat lon (Some (solar existingData)) None (timestamp existingData))
      else if energy_type = ''wind''
        then (200, EnergyBody lat lon None (Some (wind existingData)) (timestamp existingData))
      else if energy_type = ''both''
        then (200, EnergyBody lat lon (Some (solar existingData)) (Some (wind existingData))
                     (timestamp existingData))
      else (400, ErrorBody ''Invalid energy type''))"

text \<open>The \<open>try\<close> block of \<open>getEnergyData\<close>, then the handler with its \<open>catch\<close>.\<close>

definition getEnergyData_try :: "env \<Rightarrow> string \<Rightarrow> string \<Rightarrow> string \<Rightarrow> response io" where
  "getEnergyData_try e energy_type lat lon w =
     (case validateCoordinates (parseFloat e) lat lon of
        Invalid error \<Rightarrow> (Inr (400, ErrorBody error), w)
      | Valid la lo \<Rightarrow>
          (case findByCoordinates la lo None w of
             (Inl err, w1) \<Rightarrow> (Inl err, w1)
           | (Inr None, w1) \<Rightarrow>
               (case fetch_and_save e la lo w1 of
                  (Inl err, w2) \<Rightarrow> (Inl err, w2)
                | (Inr existingData, w2) \<Rightarrow> (Inr (respond energy_type la lo existingData), w2))
           | (Inr (Some existingData), w1) \<Rightarrow> (Inr (respond energy_type la lo existingData), w1)))"

definition getEnergyData :: "env \<Rightarrow> string \<Rightarrow> string \<Rightarrow> string \<Rightarrow> world \<Rightarrow> response \<times> world" where
  "getEnergyData e energy_type lat lon w =
     (case getEnergyData_try e energy_type lat lon w of
        (Inl err, w1) \<Rightarrow> ((500, ErrorBody ''Internal server error''), w1)
      | (Inr r, w1) \<Rightarrow> (r, w1))"

text \<open>
  The body of a calculate request. \<open>latitude\<close> and \<open>longitude\<close> are a number or one of
  the falsy values a JSON body can hold (\<open>JUndefined\<close> is the property left out); the
  three parameters are a number or left out. Values that are truthy and not numbers
  (\<open>true\<close>, a string that is not empty, an array, an object) are outside this model.
\<close>

datatype jsval = JUndefined | JNull | JFalse | JEmptyString | JNumber real

fun truthy :: "jsval \<Rightarrow> bool" where
  "truthy (JNumber x) = (x \<noteq> 0)"
| "truthy JUndefined = False"
| "truthy JNull = False"
| "truthy JFalse = False"
| "truthy JEmptyString = False"

text \<open>The number a truthy value is; the handler calls it after the truthiness check.\<close>

fun the_number :: "jsval \<Rightarrow> real" where
  "the_number (JNumber x) = x"
| "the_number JUndefined = 0"
| "the_number JNull = 0"
| "the_number JFalse = 0"
| "the_number JEmptyString = 0"

record request_body =
  body_latitude :: jsval
  body_longitude :: jsval
  body_area :: "real option"
  body_solarEfficiency :: "real option"
  body_windEfficiency :: "real option"

text \<open>
  Lines 113-132: use the cached entry when it is there and has \<open>rawData\<close>, fetch and
  save otherwise.
\<close>

definition cached_or_fetched :: "env \<Rightarrow> real \<Rightarrow> real \<Rightarrow> entry option \<Rightarrow> entry io" where
  "cached_or_fetched e lat lon found w =
     (case found of
        None \<Rightarrow> fetch_and_save e lat lon w
      | Some energyData \<Rightarrow>
          (case rawData energyData of
             None \<Rightarrow> fetch_and_save e lat lon w
           | Some raw \<Rightarrow> (Inr energyData, w)))"

text \<open>Lines 134-169: the raw data check, the custom calculation, the response.\<close>

definition calculate_response ::
    "real \<Rightarrow> real \<Rightarrow> real \<Rightarrow> real \<Rightarrow> real \<Rightarrow> entry \<Rightarrow> js_error + response" where
  "calculate_response lat lon area solarEfficiency windEfficiency energyData =
     (case rawData energyData of
        None \<Rightarrow> Inr (500, ErrorBody ''Missing raw solar or wind data'')
      | Some raw \<Rightarrow>
          if raw_solar raw = None \<or> raw_wind raw = None
            then Inr (500, ErrorBody ''Missing raw solar or wind data'')
          else if area \<noteq> 1 \<or> solarEfficiency \<noteq> 0.2 \<or> windEfficiency \<noteq> 0.4
            then (case calculateSolarEnergy (raw_solar raw) (Some area) (Some solarEfficiency) of
                    Inl err \<Rightarrow> Inl err
                  | Inr customSolar \<Rightarrow>
                      (case calculateWindEnergy (raw_wind raw) (Some area) (Some windEfficiency) of
                         Inl err \<Rightarrow> Inl err
                       | Inr customWind \<Rightarrow>
                           Inr (200, CalculateBody lat lon customSolar customWind
                                       (Some (area, solarEfficiency, windEfficiency)))))
          else Inr (200, CalculateBody lat lon (solar energyData) (wind energyData) None))"

text \<open>The \<open>try\<close> block of \<open>calculateEnergy\<close>, then the handler with its \<open>catch\<close>.\<close>

definition calculateEnergy_try :: "env \<Rightarrow> request_body \<Rightarrow> response io" where
  "calculateEnergy_try e b w =
     (let area = or_default (body_area b) 1;
          solarEfficiency = or_default (body_solarEfficiency b) 0.2;
          windEfficiency = or_default (body_windEfficiency b) 0.4
      in if \<not> truthy (body_latitude b) \<or> \<not> truthy (body_longitude b)
           then (Inr (400, ErrorBody ''Latitude and longitude are required''), w)
         else
           (let lat = the_number (body_latitude b);
                lon = the_number (body_longitude b)
            in case findByCoordinates lat lon None w of
                 (Inl err, w1) \<Rightarrow> (Inl err, w1)
               | (Inr found, w1) \<Rightarrow>
                   (case cached_or_fetched e lat lon found w1 of
                      (Inl err, w2) \<Rightarrow> (Inl err, w2)
                    | (Inr energyData, w2) \<Rightarrow>
                        (calculate_response lat lon area solarEfficiency windEfficiency energyData,
                         w2))))"

definition calculateEnergy :: "env \<Rightarrow> request_body \<Rightarrow> world \<Rightarrow> response \<times> world" where
  "calculateEnergy e b w =
     (case calculateEnergy_try e b w of
        (Inl err, w1) \<Rightarrow> ((500, ErrorBody ''Internal server error''), w1)
      | (Inr r, w1) \<Rightarrow> (r, w1))"

section \<open>Sample inputs\<close>

text \<open>
  Concrete inputs the theorems below are run on: an upstream answer with one month of
  each series, a \<open>parseFloat\<close> for the strings used, an environment whose fetch always
  succeeds, stores, entries and request bodies.
\<close>

definition sample_nasa :: nasa_data where
  "sample_nasa = \<lparr>raw_solar = Some [(''201201'', 4)], raw_wind = Some [(''201201'', 5)],
                   metadata = (0, 0, 0)\<rparr>"

definition sample_parseFloat :: "string \<Rightarrow> parsed" where
  "sample_parseFloat s =
     (if s = ''90'' then Num 90 else if s = ''-90'' then Num (- 90)
      else if s = ''180'' then Num 180 else if s = ''-180'' then Num (- 180)
      else if s = ''100'' then Num 100 else if s = ''10'' then Num 10
      else if s = ''Infinity'' then PosInfinity else NaN)"

definition sample_env :: env where
  "sample_env = \<lparr>parseFloat = sample_parseFloat, fetchNASAData = (\<lambda>lat lon. Inr sample_nasa),
                  now = ''2025-07-08T10:30:00.000Z''\<rparr>"

definition empty_world :: world where
  "empty_world =
     \<lparr>disk = File (Json []), readable = True, writable = True, tears = False, trace = []\<rparr>"

definition sample_entry :: "real \<Rightarrow> real \<Rightarrow> entry" where
  "sample_entry lat lon =
     \<lparr>latitude = lat, longitude = lon,
      solar = [''2012'' \<mapsto> \<lparr>annual = 24, months = [''01'' \<mapsto> 24]\<rparr>],
      wind = [''2012'' \<mapsto> \<lparr>annual = 27.71, months = [''01'' \<mapsto> 27.71]\<rparr>],
      rawData = Some sample_nasa, timestamp = ''2025-07-08T10:30:00.000Z''\<rparr>"

definition cached_entry :: entry where
  "cached_entry = sample_entry 43.65 (- 79.38)"

definition nearby_entry :: entry where
  "nearby_entry = sample_entry 43.655 (- 79.385)"

definition distant_entry :: entry where
  "distant_entry = sample_entry 10 10"

definition two_entries :: world where
  "two_entries =
     \<lparr>disk = File (Json [cached_entry, distant_entry]), readable = True, writable = True,
      tears = False, trace = []\<rparr>"

text \<open>The same file with write permission and no read permission.\<close>

definition write_only :: world where
  "write_only = two_entries\<lparr>readable := False\<rparr>"

text \<open>A world with the given file and permissions, nothing recorded yet.\<close>

definition world_of :: "db_file \<Rightarrow> bool \<Rightarrow> bool \<Rightarrow> world" where
  "world_of f r wr = \<lparr>disk = f, readable = r, writable = wr, tears = False, trace = []\<rparr>"

text \<open>
  Samples for the binary64 arithmetic; every number is a binary64 value. Two months
  whose energies, with area 1 and efficiency 1, are 0.1 and 0.2, and three months whose
  energies are 18000000000000.47, 18000000000001.41 and 18000000000000.47.
\<close>

definition two_small_months :: samples where
  "two_small_months = [(''201201'', 7 / 2048), (''201202'', 27 / 4096)]"

definition three_large_months :: samples where
  "three_large_months =
     [(''201201'', 38400000000001 / 64), (''201202'', 38400000000003 / 64),
      (''201203'', 38400000000001 / 64)]"

definition sample_body :: "jsval \<Rightarrow> jsval \<Rightarrow> real option \<Rightarrow> request_body" where
  "sample_body lat lon area =
     \<lparr>body_latitude = lat, body_longitude = lon, body_area = area,
      body_solarEfficiency = None, body_windEfficiency = None\<rparr>"

section \<open>Evaluation rules\<close>

lemmas calc_eval = calculateSolarEnergy_def calculateWindEnergy_def solar_step_def wind_step_def
  accumulate_def skipped_def MONTH_KEY_def isDigit_def endsWith_def slice_def
  solar_energy_def wind_energy_def toFixed2_def or_default_def
  DAYS_PER_MONTH_def HOURS_PER_MONTH_def AIR_DENSITY_def Let_def

lemmas store_eval = readDatabase_def initializeDatabase_def writeFileSync_def readFileSync_def
  JSON_parse_def writeDatabase_def log_event_def findByCoordinates_def saveEnergyData_def
  getAllData_def close_to_def

lemmas handler_eval = calculateEnergy_def calculateEnergy_try_def cached_or_fetched_def
  calculate_response_def fetch_and_save_def fetchNASA_def getEnergyData_def getEnergyData_try_def
  respond_def validateCoordinates_def isNaN_def

lemmas sample_eval = sample_nasa_def sample_parseFloat_def sample_env_def empty_world_def
  sample_entry_def sample_body_def

lemma sample_calc:
  "calculateSolarEnergy (Some [(''201201'', 4)]) None None =
     Inr [''2012'' \<mapsto> \<lparr>annual = 24, months = [''01'' \<mapsto> 24]\<rparr>]"
  "calculateWindEnergy (Some [(''201201'', 5)]) None None =
     Inr [''2012'' \<mapsto> \<lparr>annual = 27.71, months = [''01'' \<mapsto> 27.71]\<rparr>]"
  by (simp_all add: calc_eval)

lemma sample_coords:
  "latitude cached_entry = 43.65" "longitude cached_entry = - 79.38"
  "latitude nearby_entry = 43.655" "longitude nearby_entry = - 79.385"
  "latitude distant_entry = 10" "longitude distant_entry = 10"
  by (simp_all add: cached_entry_def nearby_entry_def distant_entry_def sample_entry_def)

section \<open>The calculator\<close>

subsection \<open>Rounding\<close>

text \<open>
  Every number from 27.705 up to, but not including, 27.715 rounds to 27.71. The wind
  energy of claim C1 is 27.708912 before rounding, more than 0.003 away from both ends.
\<close>

lemma toFixed2_interval:
  assumes lo: "27.705 \<le> x" and hi: "x < 27.715"
  shows "toFixed2 x = 27.71"
proof -
  have pos: "\<not> x < 0" "\<not> 10 ^ 21 \<le> \<bar>x\<bar>" using lo hi by simp_all
  from lo hi have "2771 \<le> x * 100 + 1 / 2" "x * 100 + 1 / 2 < 2771 + 1" by simp_all
  then have "\<lfloor>x * 100 + 1 / 2\<rfloor> = 2771" by linarith
  moreover have "\<bar>x\<bar> = x" using lo by simp
  ultimately show ?thesis using pos by (simp add: toFixed2_def Let_def)
qed

text \<open>
  Over the reals a number with two decimals rounds to itself, and the sum of two such
  numbers is such a number: in the exact arithmetic the rounding of the annual total
  after an addition never changes it. (In binary64 it does; see the examples below.)
\<close>

lemma toFixed2_hundredths: "toFixed2 (of_int k / 100) = of_int k / 100"
proof -
  have "\<bar>real_of_int k / 100\<bar> * 100 + 1 / 2 = of_int \<bar>k\<bar> + 1 / 2"
    by simp
  then have "\<lfloor>\<bar>real_of_int k / 100\<bar> * 100 + 1 / 2\<rfloor> = \<bar>k\<bar>"
    by (simp only:) linarith
  then show ?thesis
    by (cases "k < 0") (simp_all add: toFixed2_def Let_def)
qed

lemma toFixed2_sum_of_hundredths:
  "toFixed2 (of_int m / 100 + of_int n / 100) = of_int m / 100 + of_int n / 100"
  using toFixed2_hundredths [of "m + n"] by (simp add: add_divide_distrib)

subsection \<open>The loops\<close>

lemma solar_step_gen: "solar_step a e = gen_step (solar_energy a e)"
  by (intro ext) (simp add: solar_step_def gen_step_def Let_def)

lemma wind_step_gen: "wind_step a e = gen_step (wind_energy a e)"
  by (intro ext) (simp add: wind_step_def gen_step_def Let_def)

lemma gen_step_skipped: "skipped k \<Longrightarrow> gen_step f res (k, v) = res"
  by (simp add: gen_step_def)

subsection \<open>The calculators over the exact arithmetic\<close>

text \<open>
  With the exact arithmetic, the calculators over any arithmetic are the calculators of
  the first section.
\<close>

lemma exact_sel:
  "num_lit exact x = x" "num_add exact x y = x + y" "num_mul exact x y = x * y"
  "num_div exact x y = x / y" "num_pow exact x n = x ^ n" "num_toFixed2 exact x = toFixed2 x"
  by (simp_all add: exact_def)

lemma accumulate_exact: "accumulate_in exact = accumulate"
  by (intro ext) (simp add: accumulate_in_def accumulate_def exact_sel Let_def split: option.splits)

lemma energy_exact:
  "solar_energy_in exact = solar_energy" "wind_energy_in exact = wind_energy"
  by (intro ext, simp add: solar_energy_in_def solar_energy_def exact_sel DAYS_PER_MONTH_def)
     (intro ext, simp add: wind_energy_in_def wind_energy_def exact_sel HOURS_PER_MONTH_def
        AIR_DENSITY_def Let_def)

lemma step_exact: "solar_step_in exact = solar_step" "wind_step_in exact = wind_step"
  by (intro ext, simp add: solar_step_in_def solar_step_def accumulate_exact energy_exact Let_def)
     (intro ext, simp add: wind_step_in_def wind_step_def accumulate_exact energy_exact Let_def)

lemma calculators_exact:
  "calculateSolarEnergy_in exact data area efficiency = calculateSolarEnergy data area efficiency"
  "calculateWindEnergy_in exact data area efficiency = calculateWindEnergy data area efficiency"
  by (simp_all add: calculateSolarEnergy_in_def calculateSolarEnergy_def
      calculateWindEnergy_in_def calculateWindEnergy_def step_exact exact_sel
      split: option.splits)

subsection \<open>The annual total after the loop, over any arithmetic\<close>

lemma solar_step_in_gen: "solar_step_in a ar ef = gen_step_in a (solar_energy_in a ar ef)"
  by (intro ext) (simp add: solar_step_in_def gen_step_in_def Let_def)

lemma wind_step_in_gen: "wind_step_in a ar ef = gen_step_in a (wind_energy_in a ar ef)"
  by (intro ext) (simp add: wind_step_in_def gen_step_in_def Let_def)

lemma accumulate_in_other: "y \<noteq> year \<Longrightarrow> accumulate_in a res year m en y = res y"
  by (simp add: accumulate_in_def Let_def)

lemma accumulate_in_same:
  "map_option annual (accumulate_in a res y m en y) =
     Some (num_toFixed2 a
             (num_add a (case res y of None \<Rightarrow> num_lit a 0 | Some r \<Rightarrow> annual r) en))"
  by (simp add: accumulate_in_def Let_def split: option.splits)

text \<open>
  The \<open>annual\<close> of a year after the loop, from any result the loop starts on: untouched
  when the year has no processed key, and otherwise the running total that starts from
  the year's \<open>annual\<close> so far (the literal 0 when the year is new).
\<close>

lemma gen_loop_annual:
  "map_option annual (foldl (gen_step_in a f) res d y) =
     (if year_energies f y d = [] then map_option annual (res y)
      else Some (foldl (\<lambda>total e. num_toFixed2 a (num_add a total e))
                   (case res y of None \<Rightarrow> num_lit a 0 | Some r \<Rightarrow> annual r)
                   (year_energies f y d)))"
proof (induction d arbitrary: res)
  case Nil
  then show ?case by (simp add: year_energies_def)
next
  case (Cons kv d)
  show ?case
  proof (cases "skipped (fst kv)")
    case True
    then show ?thesis using Cons.IH [of res]
      by (simp add: gen_step_in_def year_energies_def)
  next
    case False
    note proc = this
    show ?thesis
    proof (cases "slice (fst kv) 0 4 = y")
      case True
      let ?res' = "accumulate_in a res y (slice (fst kv) 4 6) (f (snd kv))"
      let ?start = "case res y of None \<Rightarrow> num_lit a 0 | Some r \<Rightarrow> annual r"
      have step: "gen_step_in a f res kv = ?res'"
        using proc True by (simp add: gen_step_in_def)
      have ys: "year_energies f y (kv # d) = f (snd kv) # year_energies f y d"
        using proc True by (simp add: year_energies_def)
      have ann: "map_option annual (?res' y) =
          Some (num_toFixed2 a (num_add a ?start (f (snd kv))))"
        by (rule accumulate_in_same)
      then obtain r' where r': "?res' y = Some r'"
        and a': "annual r' = num_toFixed2 a (num_add a ?start (f (snd kv)))"
        by auto
      show ?thesis
        using Cons.IH [of ?res'] by (simp add: step ys r' a')
    next
      case False
      have step: "gen_step_in a f res kv y = res y"
        using proc False by (simp add: gen_step_in_def accumulate_in_other)
      have ys: "year_energies f y (kv # d) = year_energies f y d"
        using proc False by (simp add: year_energies_def)
      show ?thesis
        using Cons.IH [of "gen_step_in a f res kv"] by (simp add: step ys)
    qed
  qed
qed

subsection \<open>Claim C1\<close>

text \<open>
  C1, as amended. For the single sample \<open>{"201201": 5.0}\<close>, with area 1256.64 and
  efficiency 0.4 passed or left to their defaults, \<open>calculateWindEnergy\<close> returns year
  2012 with month 01 equal to 27.71 and \<open>annual\<close> equal to 27.71: the product
  \<open>0.5 * 1.225 * 1256.64 * 5^3 * 0.4 * 720 / 10^6\<close> is 27.708912, which rounds to 27.71.
\<close>

theorem wind_single_sample_2012_01:
  "calculateWindEnergy (Some [(''201201'', 5)]) (Some 1256.64) (Some 0.4) =
     Inr [''2012'' \<mapsto> \<lparr>annual = 27.71, months = [''01'' \<mapsto> 27.71]\<rparr>]
   \<and> calculateWindEnergy (Some [(''201201'', 5)]) None None =
     Inr [''2012'' \<mapsto> \<lparr>annual = 27.71, months = [''01'' \<mapsto> 27.71]\<rparr>]
   \<and> 0.5 * 1.225 * 1256.64 * 5 ^ 3 * 0.4 * 720 / 1000000 = (27.708912 :: real)"
  by (simp add: calc_eval)

text \<open>The same result, read through the month and the \<open>annual\<close> of year 2012.\<close>

theorem wind_single_sample_2012_01_witness:
  "month_of (calculateWindEnergy (Some [(''201201'', 5)]) (Some 1256.64) (Some 0.4))
       ''2012'' ''01'' = Some 27.71
   \<and> annual_of (calculateWindEnergy (Some [(''201201'', 5)]) (Some 1256.64) (Some 0.4))
       ''2012'' = Some 27.71"
  using wind_single_sample_2012_01 by (simp add: month_of_def annual_of_def)

text \<open>
  C1 as stated fails: neither the month nor the \<open>annual\<close> is 27.72, and the rounding of
  the product is not 27.72.
\<close>

theorem wind_single_sample_not_27_72:
  "month_of (calculateWindEnergy (Some [(''201201'', 5)]) (Some 1256.64) (Some 0.4))
       ''2012'' ''01'' \<noteq> Some 27.72
   \<and> annual_of (calculateWindEnergy (Some [(''201201'', 5)]) (Some 1256.64) (Some 0.4))
       ''2012'' \<noteq> Some 27.72
   \<and> toFixed2 (0.5 * 1.225 * 1256.64 * 5 ^ 3 * 0.4 * 720 / 1000000) \<noteq> 27.72"
  by (simp add: calc_eval month_of_def annual_of_def)

subsection \<open>Binary64 values\<close>

text \<open>
  Rounding to binary64 when the binary exponent of the number is known.
\<close>

lemma to_binary64_eval:
  assumes "2 powi k \<le> \<bar>x\<bar>" "\<bar>x\<bar> < 2 powi (k + 1)"
  shows "to_binary64 x = of_int (round_even (x / 2 powi (k - 52))) * 2 powi (k - 52)"
proof -
  have pos: "0 < \<bar>x\<bar>" using assms(1) by (smt (verit) zero_less_power_int)
  have "2 powr (real_of_int k + 1) = 2 powi (k + 1)"
    using powr_real_of_int' [of 2 "k + 1"] by simp
  then have "\<lfloor>log 2 \<bar>x\<bar>\<rfloor> = k"
    using assms pos by (simp add: floor_log_eq_powr_iff powr_real_of_int')
  moreover have "x \<noteq> 0" using pos by simp
  ultimately show ?thesis by (simp add: to_binary64_def Let_def)
qed

lemma binary64_sel:
  "num_lit binary64 x = to_binary64 x"
  "num_add binary64 x y = to_binary64 (x + y)"
  "num_mul binary64 x y = to_binary64 (x * y)"
  "num_div binary64 x y = to_binary64 (x / y)"
  "num_pow binary64 x n = to_binary64 (x ^ n)"
  "num_toFixed2 binary64 x = to_binary64 (toFixed2 x)"
  by (simp_all add: binary64_def)

text \<open>
  The roundings the two binary64 examples go through. 3602879701896397 / 2^55 is the
  binary64 value written 0.1, 5404319552844595 / 2^54 the one written 0.3, and
  1351079888211149 / 2^52 the one written 0.30000000000000004.
\<close>

lemma binary64_values:
  "to_binary64 (7 / 2048 * 1) = 7 / 2048"
  "to_binary64 30 = 30"
  "to_binary64 (7 / 2048 * 30) = 105 / 1024"
  "toFixed2 (105 / 1024) = 1 / 10"
  "to_binary64 (1 / 10) = 3602879701896397 / 36028797018963968"
  "to_binary64 (27 / 4096 * 1) = 27 / 4096"
  "to_binary64 (27 / 4096 * 30) = 405 / 2048"
  "toFixed2 (405 / 2048) = 1 / 5"
  "to_binary64 (1 / 5) = 3602879701896397 / 18014398509481984"
  "to_binary64 0 = 0"
  "to_binary64 (0 + 3602879701896397 / 36028797018963968) = 3602879701896397 / 36028797018963968"
  "toFixed2 (3602879701896397 / 36028797018963968) = 1 / 10"
  "to_binary64 (3602879701896397 / 36028797018963968 + 3602879701896397 / 18014398509481984) = 1351079888211149 / 4503599627370496"
  "toFixed2 (1351079888211149 / 4503599627370496) = 3 / 10"
  "to_binary64 (3 / 10) = 5404319552844595 / 18014398509481984"
  "to_binary64 (38400000000001 / 64 * 1) = 38400000000001 / 64"
  "to_binary64 (38400000000001 / 64 * 30) = 576000000000015 / 32"
  "toFixed2 (576000000000015 / 32) = 1800000000000047 / 100"
  "to_binary64 (1800000000000047 / 100) = 576000000000015 / 32"
  "to_binary64 (38400000000003 / 64 * 1) = 38400000000003 / 64"
  "to_binary64 (38400000000003 / 64 * 30) = 576000000000045 / 32"
  "toFixed2 (576000000000045 / 32) = 1800000000000141 / 100"
  "to_binary64 (1800000000000141 / 100) = 4608000000000361 / 256"
  "to_binary64 (0 + 576000000000015 / 32) = 576000000000015 / 32"
  "to_binary64 (576000000000015 / 32 + 4608000000000361 / 256) = 288000000000015 / 8"
  "toFixed2 (288000000000015 / 8) = 900000000000047 / 25"
  "to_binary64 (900000000000047 / 25) = 4608000000000241 / 128"
  "to_binary64 (4608000000000241 / 128 + 576000000000015 / 32) = 6912000000000301 / 128"
  "toFixed2 (6912000000000301 / 128) = 1080000000000047 / 20"
  "to_binary64 (1080000000000047 / 20) = 6912000000000301 / 128"
  "to_binary64 (288000000000015 / 8 + 576000000000015 / 32) = 1728000000000075 / 32"
  "toFixed2 (1728000000000075 / 32) = 2700000000000117 / 50"
  "to_binary64 (2700000000000117 / 50) = 1728000000000075 / 32"
proof -
  show "to_binary64 (7 / 2048 * 1) = 7 / 2048"
    by (subst to_binary64_eval [where k = "- 9"]) (simp_all add: round_even_def power_int_minus)
  show "to_binary64 30 = 30"
    by (subst to_binary64_eval [where k = "4"]) (simp_all add: round_even_def power_int_minus)
  show "to_binary64 (7 / 2048 * 30) = 105 / 1024"
    by (subst to_binary64_eval [where k = "- 4"]) (simp_all add: round_even_def power_int_minus)
  show "toFixed2 (105 / 1024) = 1 / 10"
    by (simp add: toFixed2_def)
  show "to_binary64 (1 / 10) = 3602879701896397 / 36028797018963968"
    by (subst to_binary64_eval [where k = "- 4"]) (simp_all add: round_even_def power_int_minus)
  show "to_binary64 (27 / 4096 * 1) = 27 / 4096"
    by (subst to_binary64_eval [where k = "- 8"]) (simp_all add: round_even_def power_int_minus)
  show "to_binary64 (27 / 4096 * 30) = 405 / 2048"
    by (subst to_binary64_eval [where k = "- 3"]) (simp_all add: round_even_def power_int_minus)
  show "toFixed2 (405 / 2048) = 1 / 5"
    by (simp add: toFixed2_def)
  show "to_binary64 (1 / 5) = 3602879701896397 / 18014398509481984"
    by (subst to_binary64_eval [where k = "- 3"]) (simp_all add: round_even_def power_int_minus)
  show "to_binary64 0 = 0"
    by (simp add: to_binary64_def)
  show "to_binary64 (0 + 3602879701896397 / 36028797018963968) = 3602879701896397 / 36028797018963968"
    by (subst to_binary64_eval [where k = "- 4"]) (simp_all add: round_even_def power_int_minus)
  show "toFixed2 (3602879701896397 / 36028797018963968) = 1 / 10"
    by (simp add: toFixed2_def)
  show "to_binary64 (3602879701896397 / 36028797018963968 + 3602879701896397 / 18014398509481984) = 1351079888211149 / 4503599627370496"
    by (subst to_binary64_eval [where k = "- 2"]) (simp_all add: round_even_def power_int_minus)
  show "toFixed2 (1351079888211149 / 4503599627370496) = 3 / 10"
    by (simp add: toFixed2_def)
  show "to_binary64 (3 / 10) = 5404319552844595 / 18014398509481984"
    by (subst to_binary64_eval [where k = "- 2"]) (simp_all add: round_even_def power_int_minus)
  show "to_binary64 (38400000000001 / 64 * 1) = 38400000000001 / 64"
    by (subst to_binary64_eval [where k = "39"]) (simp_all add: round_even_def power_int_minus)
  show "to_binary64 (38400000000001 / 64 * 30) = 576000000000015 / 32"
    by (subst to_binary64_eval [where k = "44"]) (simp_all add: round_even_def power_int_minus)
  show "toFixed2 (576000000000015 / 32) = 1800000000000047 / 100"
    by (simp add: toFixed2_def)
  show "to_binary64 (1800000000000047 / 100) = 576000000000015 / 32"
    by (subst to_binary64_eval [where k = "44"]) (simp_all add: round_even_def power_int_minus)
  show "to_binary64 (38400000000003 / 64 * 1) = 38400000000003 / 64"
    by (subst to_binary64_eval [where k = "39"]) (simp_all add: round_even_def power_int_minus)
  show "to_binary64 (38400000000003 / 64 * 30) = 576000000000045 / 32"
    by (subst to_binary64_eval [where k = "44"]) (simp_all add: round_even_def power_int_minus)
  show "toFixed2 (576000000000045 / 32) = 1800000000000141 / 100"
    by (simp add: toFixed2_def)
  show "to_binary64 (1800000000000141 / 100) = 4608000000000361 / 256"
    by (subst to_binary64_eval [where k = "44"]) (simp_all add: round_even_def power_int_minus)
  show "to_binary64 (0 + 576000000000015 / 32) = 576000000000015 / 32"
    by (subst to_binary64_eval [where k = "44"]) (simp_all add: round_even_def power_int_minus)
  show "to_binary64 (576000000000015 / 32 + 4608000000000361 / 256) = 288000000000015 / 8"
    by (subst to_binary64_eval [where k = "45"]) (simp_all add: round_even_def power_int_minus)
  show "toFixed2 (288000000000015 / 8) = 900000000000047 / 25"
    by (simp add: toFixed2_def)
  show "to_binary64 (900000000000047 / 25) = 4608000000000241 / 128"
    by (subst to_binary64_eval [where k = "45"]) (simp_all add: round_even_def power_int_minus)
  show "to_binary64 (4608000000000241 / 128 + 576000000000015 / 32) = 6912000000000301 / 128"
    by (subst to_binary64_eval [where k = "45"]) (simp_all add: round_even_def power_int_minus)
  show "toFixed2 (6912000000000301 / 128) = 1080000000000047 / 20"
    by (simp add: toFixed2_def)
  show "to_binary64 (1080000000000047 / 20) = 6912000000000301 / 128"
    by (subst to_binary64_eval [where k = "45"]) (simp_all add: round_even_def power_int_minus)
  show "to_binary64 (288000000000015 / 8 + 576000000000015 / 32) = 1728000000000075 / 32"
    by (subst to_binary64_eval [where k = "45"]) (simp_all add: round_even_def power_int_minus)
  show "toFixed2 (1728000000000075 / 32) = 2700000000000117 / 50"
    by (simp add: toFixed2_def)
  show "to_binary64 (2700000000000117 / 50) = 1728000000000075 / 32"
    by (subst to_binary64_eval [where k = "45"]) (simp_all add: round_even_def power_int_minus)
qed

lemma year_energies_samples:
  "year_energies f ''2012'' two_small_months = [f (7 / 2048), f (27 / 4096)]"
  "year_energies f ''2012'' three_large_months =
     [f (38400000000001 / 64), f (38400000000003 / 64), f (38400000000001 / 64)]"
  by (simp_all add: year_energies_def two_small_months_def three_large_months_def skipped_def
      MONTH_KEY_def isDigit_def endsWith_def slice_def)

text \<open>The monthly energies of the samples, with area 1 and efficiency 1.\<close>

lemma solar_energy_binary64:
  "solar_energy_in binary64 1 1 (7 / 2048) = 3602879701896397 / 36028797018963968"
  "solar_energy_in binary64 1 1 (27 / 4096) = 3602879701896397 / 18014398509481984"
  "solar_energy_in binary64 1 1 (38400000000001 / 64) = 576000000000015 / 32"
  "solar_energy_in binary64 1 1 (38400000000003 / 64) = 4608000000000361 / 256"
  by (simp_all only: solar_energy_in_def binary64_sel binary64_values)

text \<open>
  0.1 and 0.2: the running total is 0.3; without the rounding after the second addition
  it would be 0.30000000000000004.
\<close>

lemma running_annual_two_small:
  "running_annual binary64
     [3602879701896397 / 36028797018963968, 3602879701896397 / 18014398509481984] =
   5404319552844595 / 18014398509481984"
  "plain_total binary64
     [3602879701896397 / 36028797018963968, 3602879701896397 / 18014398509481984] =
   1351079888211149 / 4503599627370496"
  by (simp_all only: running_annual_def plain_total_def foldl_Cons foldl_Nil binary64_sel
      binary64_values)

text \<open>
  18000000000000.47, 18000000000001.41 and 18000000000000.47: the running total is
  54000000000002.35 (6912000000000301 / 128), because the total after the second month,
  36000000000001.875, is rounded to 36000000000001.88 before the third is added; the
  three added without rounding in between give 54000000000002.34 (1728000000000075 / 32),
  and rounding that once at the end leaves it there.
\<close>

lemma running_annual_three_large:
  "running_annual binary64 [576000000000015 / 32, 4608000000000361 / 256, 576000000000015 / 32] =
   6912000000000301 / 128"
  "rounded_once binary64 [576000000000015 / 32, 4608000000000361 / 256, 576000000000015 / 32] =
   1728000000000075 / 32"
  by (simp_all only: running_annual_def rounded_once_def plain_total_def foldl_Cons foldl_Nil
      binary64_sel binary64_values)

text \<open>
  So in the code's arithmetic the running total is neither the plain sum nor the sum
  rounded once.
\<close>

lemma rounding_every_addition_is_observable:
  "running_annual binary64
     [3602879701896397 / 36028797018963968, 3602879701896397 / 18014398509481984] \<noteq>
   plain_total binary64
     [3602879701896397 / 36028797018963968, 3602879701896397 / 18014398509481984]"
  "running_annual binary64 [576000000000015 / 32, 4608000000000361 / 256, 576000000000015 / 32] \<noteq>
   rounded_once binary64 [576000000000015 / 32, 4608000000000361 / 256, 576000000000015 / 32]"
  by (simp_all add: running_annual_two_small running_annual_three_large)

text \<open>
  The wind energy of claim C1 in binary64: the quotient before rounding is
  3899682679938809 / 2^47, written 27.708912000000005, and the month and the annual
  total of the single month are 3899835802326139 / 2^47, the binary64 value written
  27.71, as in the exact arithmetic.
\<close>

lemma binary64_wind_values:
  "to_binary64 0.5 = 1 / 2"
  "to_binary64 1.225 = 2758454771764429 / 2251799813685248"
  "to_binary64 1256.64 = 5526761167713731 / 4398046511104"
  "to_binary64 0.4 = 3602879701896397 / 9007199254740992"
  "to_binary64 ((1 / 2) * (2758454771764429 / 2251799813685248)) = 2758454771764429 / 4503599627370496"
  "to_binary64 ((2758454771764429 / 4503599627370496) * (5526761167713731 / 4398046511104)) = 6770282430449321 / 8796093022208"
  "to_binary64 (5 ^ 3) = 125"
  "to_binary64 ((6770282430449321 / 8796093022208) * 125) = 6611603935985665 / 68719476736"
  "to_binary64 ((6611603935985665 / 68719476736) * (3602879701896397 / 9007199254740992)) = 1322320787197133 / 34359738368"
  "to_binary64 24 = 24"
  "to_binary64 (24 * 30) = 720"
  "to_binary64 ((1322320787197133 / 34359738368) * 720) = 7438054427983873 / 268435456"
  "to_binary64 1000000 = 1000000"
  "to_binary64 ((7438054427983873 / 268435456) / 1000000) = 3899682679938809 / 140737488355328"
  "toFixed2 (3899682679938809 / 140737488355328) = 2771 / 100"
  "to_binary64 (2771 / 100) = 3899835802326139 / 140737488355328"
  "to_binary64 (0 + 3899835802326139 / 140737488355328) = 3899835802326139 / 140737488355328"
  "toFixed2 (3899835802326139 / 140737488355328) = 2771 / 100"
proof -
  show "to_binary64 0.5 = 1 / 2"
    by (subst to_binary64_eval [where k = "- 1"]) (simp_all add: round_even_def power_int_minus)
  show "to_binary64 1.225 = 2758454771764429 / 2251799813685248"
    by (subst to_binary64_eval [where k = "0"]) (simp_all add: round_even_def power_int_minus)
  show "to_binary64 1256.64 = 5526761167713731 / 4398046511104"
    by (subst to_binary64_eval [where k = "10"]) (simp_all add: round_even_def power_int_minus)
  show "to_binary64 0.4 = 3602879701896397 / 9007199254740992"
    by (subst to_binary64_eval [where k = "- 2"]) (simp_all add: round_even_def power_int_minus)
  show "to_binary64 ((1 / 2) * (2758454771764429 / 2251799813685248)) = 2758454771764429 / 4503599627370496"
    by (subst to_binary64_eval [where k = "- 1"]) (simp_all add: round_even_def power_int_minus)
  show "to_binary64 ((2758454771764429 / 4503599627370496) * (5526761167713731 / 4398046511104)) = 6770282430449321 / 8796093022208"
    by (subst to_binary64_eval [where k = "9"]) (simp_all add: round_even_def power_int_minus)
  show "to_binary64 (5 ^ 3) = 125"
    by (subst to_binary64_eval [where k = "6"]) (simp_all add: round_even_def power_int_minus)
  show "to_binary64 ((6770282430449321 / 8796093022208) * 125) = 6611603935985665 / 68719476736"
    by (subst to_binary64_eval [where k = "16"]) (simp_all add: round_even_def power_int_minus)
  show "to_binary64 ((6611603935985665 / 68719476736) * (3602879701896397 / 9007199254740992)) = 1322320787197133 / 34359738368"
    by (subst to_binary64_eval [where k = "15"]) (simp_all add: round_even_def power_int_minus)
  show "to_binary64 24 = 24"
    by (subst to_binary64_eval [where k = "4"]) (simp_all add: round_even_def power_int_minus)
  show "to_binary64 (24 * 30) = 720"
    by (subst to_binary64_eval [where k = "9"]) (simp_all add: round_even_def power_int_minus)
  show "to_binary64 ((1322320787197133 / 34359738368) * 720) = 7438054427983873 / 268435456"
    by (subst to_binary64_eval [where k = "24"]) (simp_all add: round_even_def power_int_minus)
  show "to_binary64 1000000 = 1000000"
    by (subst to_binary64_eval [where k = "19"]) (simp_all add: round_even_def power_int_minus)
  show "to_binary64 ((7438054427983873 / 268435456) / 1000000) = 3899682679938809 / 140737488355328"
    by (subst to_binary64_eval [where k = "4"]) (simp_all add: round_even_def power_int_minus)
  show "toFixed2 (3899682679938809 / 140737488355328) = 2771 / 100"
    by (simp add: toFixed2_def)
  show "to_binary64 (2771 / 100) = 3899835802326139 / 140737488355328"
    by (subst to_binary64_eval [where k = "4"]) (simp_all add: round_even_def power_int_minus)
  show "to_binary64 (0 + 3899835802326139 / 140737488355328) = 3899835802326139 / 140737488355328"
    by (subst to_binary64_eval [where k = "4"]) (simp_all add: round_even_def power_int_minus)
  show "toFixed2 (3899835802326139 / 140737488355328) = 2771 / 100"
    by (simp add: toFixed2_def)
qed

lemma wind_single_sample_binary64:
  "wind_energy_in binary64 (num_lit binary64 1256.64) (num_lit binary64 0.4) 5 =
     3899835802326139 / 140737488355328"
  "running_annual binary64 [3899835802326139 / 140737488355328] =
     3899835802326139 / 140737488355328"
  by (simp_all only: wind_energy_in_def running_annual_def foldl_Cons foldl_Nil Let_def
      binary64_sel binary64_values binary64_wind_values)

text \<open>
  A large month and two small ones, 600000000000000, 0.06 and 0.06: in binary64 the
  small months do not change the total, over the reals they do.
\<close>

lemma binary64_large_values:
  "to_binary64 (0 + 600000000000000) = 600000000000000"
  "toFixed2 (600000000000000) = 600000000000000"
  "to_binary64 (600000000000000) = 600000000000000"
  "to_binary64 (600000000000000 + 1080863910568919 / 18014398509481984) = 600000000000000"
proof -
  show "to_binary64 (0 + 600000000000000) = 600000000000000"
    by (subst to_binary64_eval [where k = "49"]) (simp_all add: round_even_def power_int_minus)
  show "toFixed2 (600000000000000) = 600000000000000"
    by (simp add: toFixed2_def)
  show "to_binary64 (600000000000000) = 600000000000000"
    by (subst to_binary64_eval [where k = "49"]) (simp_all add: round_even_def power_int_minus)
  show "to_binary64 (600000000000000 + 1080863910568919 / 18014398509481984) = 600000000000000"
    by (subst to_binary64_eval [where k = "49"]) (simp_all add: round_even_def power_int_minus)
qed

lemma running_annual_large_and_small:
  "running_annual binary64
     [600000000000000, 1080863910568919 / 18014398509481984,
      1080863910568919 / 18014398509481984] = 600000000000000"
  by (simp only: running_annual_def foldl_Cons foldl_Nil binary64_sel binary64_values
      binary64_large_values)

lemma running_annual_large_and_small_exact:
  "running_annual exact [600000000000000, 0.06, 0.06] = 600000000000000.12"
  by (simp add: running_annual_def exact_sel toFixed2_def)

text \<open>
  Where the two arithmetics part: the irradiance 0.7875 with the default area and
  efficiency. Over the reals the product is 4.725, a tie that \<open>toFixed\<close> rounds to 4.73;
  in binary64 the product lies just below 4.725 and the month is 4.72.
\<close>

lemma binary64_tie_values:
  "to_binary64 0.7875 = 7093169413108531 / 9007199254740992"
  "to_binary64 1 = 1"
  "to_binary64 0.2 = 3602879701896397 / 18014398509481984"
  "to_binary64 ((7093169413108531 / 9007199254740992) * 1) = 7093169413108531 / 9007199254740992"
  "to_binary64 ((7093169413108531 / 9007199254740992) * (3602879701896397 / 18014398509481984)) = 5674535530486825 / 36028797018963968"
  "to_binary64 ((5674535530486825 / 36028797018963968) * 30) = 2659938529915699 / 562949953421312"
  "toFixed2 (2659938529915699 / 562949953421312) = 118 / 25"
  "to_binary64 (118 / 25) = 5314247560297185 / 1125899906842624"
proof -
  show "to_binary64 0.7875 = 7093169413108531 / 9007199254740992"
    by (subst to_binary64_eval [where k = "- 1"]) (simp_all add: round_even_def power_int_minus)
  show "to_binary64 1 = 1"
    by (subst to_binary64_eval [where k = "0"]) (simp_all add: round_even_def power_int_minus)
  show "to_binary64 0.2 = 3602879701896397 / 18014398509481984"
    by (subst to_binary64_eval [where k = "- 3"]) (simp_all add: round_even_def power_int_minus)
  show "to_binary64 ((7093169413108531 / 9007199254740992) * 1) = 7093169413108531 / 9007199254740992"
    by (subst to_binary64_eval [where k = "- 1"]) (simp_all add: round_even_def power_int_minus)
  show "to_binary64 ((7093169413108531 / 9007199254740992) * (3602879701896397 / 18014398509481984)) = 5674535530486825 / 36028797018963968"
    by (subst to_binary64_eval [where k = "- 3"]) (simp_all add: round_even_def power_int_minus)
  show "to_binary64 ((5674535530486825 / 36028797018963968) * 30) = 2659938529915699 / 562949953421312"
    by (subst to_binary64_eval [where k = "2"]) (simp_all add: round_even_def power_int_minus)
  show "toFixed2 (2659938529915699 / 562949953421312) = 118 / 25"
    by (simp add: toFixed2_def)
  show "to_binary64 (118 / 25) = 5314247560297185 / 1125899906842624"
    by (subst to_binary64_eval [where k = "2"]) (simp_all add: round_even_def power_int_minus)
qed

lemma solar_tie_binary64:
  "solar_energy_in binary64 (num_lit binary64 1) (num_lit binary64 0.2) (num_lit binary64 0.7875) =
     to_binary64 (118 / 25)"
  by (simp only: solar_energy_in_def binary64_sel binary64_values binary64_tie_values)

lemma solar_tie_exact: "solar_energy 1 0.2 0.7875 = 4.73"
  by (simp add: solar_energy_def toFixed2_def DAYS_PER_MONTH_def)

subsection \<open>Claim C3\<close>

text \<open>
  C3. For every samples object, every year and both calculators, in every arithmetic
  (the code's binary64 and the exact one among them): the result has the year exactly
  when the year has a processed key, and then the year's \<open>annual\<close> is the running total of
  the year's rounded monthly energies in iteration order: it starts from the literal 0,
  and after every addition the total is rounded to 2 decimals, by the addition and the
  \<^verbatim>\<open>+(x).toFixed(2)\<close> of that arithmetic. The calculators of the first section are the
  calculators over the exact arithmetic.
\<close>

theorem annual_is_running_total:
  "annual_of (calculateSolarEnergy_in a (Some d) area efficiency) year =
     (let es = year_energies
                 (solar_energy_in a (or_default area (num_lit a 1))
                    (or_default efficiency (num_lit a 0.2))) year d
      in if es = [] then None else Some (running_annual a es))
   \<and> annual_of (calculateWindEnergy_in a (Some d) area efficiency) year =
     (let es = year_energies
                 (wind_energy_in a (or_default area (num_lit a 1256.64))
                    (or_default efficiency (num_lit a 0.4))) year d
      in if es = [] then None else Some (running_annual a es))
   \<and> calculateSolarEnergy (Some d) area efficiency =
       calculateSolarEnergy_in exact (Some d) area efficiency
   \<and> calculateWindEnergy (Some d) area efficiency =
       calculateWindEnergy_in exact (Some d) area efficiency"
  by (simp add: annual_of_def calculateSolarEnergy_in_def calculateWindEnergy_in_def
      solar_step_in_gen wind_step_in_gen gen_loop_annual running_annual_def Let_def
      calculators_exact [symmetric])

text \<open>
  In binary64, with area 1 and efficiency 1: the months 0.1 and 0.2 give the annual
  total 0.3 (not 0.30000000000000004), and the months 18000000000000.47,
  18000000000001.41 and 18000000000000.47 give 54000000000002.35 (not 54000000000002.34,
  the sum rounded once). In the exact arithmetic: three months of 2012 of differing
  magnitudes (24.67, 2.22 and 740.74 after rounding), with the annual-average key and a
  month of 2013 between them, give 767.63.
\<close>

theorem annual_is_running_total_witness:
  "annual_of (calculateSolarEnergy_in binary64 (Some two_small_months) (Some 1) (Some 1)) ''2012'' =
     Some (5404319552844595 / 18014398509481984)
   \<and> annual_of (calculateSolarEnergy_in binary64 (Some three_large_months) (Some 1) (Some 1))
       ''2012'' = Some (6912000000000301 / 128)
   \<and> annual_of (calculateSolarEnergy (Some [(''201201'', 4.111), (''201202'', 0.37), (''201213'', 3),
       (''201203'', 123.4567), (''201301'', 1)]) None None) ''2012'' = Some 767.63"
proof -
  have small: "annual_of (calculateSolarEnergy_in binary64 (Some two_small_months) (Some 1) (Some 1))
      ''2012'' = Some (5404319552844595 / 18014398509481984)"
    using annual_is_running_total [of binary64 two_small_months "Some 1" "Some 1" "''2012''"]
    by (simp add: or_default_def year_energies_samples solar_energy_binary64
        running_annual_two_small)
  have large: "annual_of (calculateSolarEnergy_in binary64 (Some three_large_months) (Some 1) (Some 1))
      ''2012'' = Some (6912000000000301 / 128)"
    using annual_is_running_total [of binary64 three_large_months "Some 1" "Some 1" "''2012''"]
    by (simp add: or_default_def year_energies_samples solar_energy_binary64
        running_annual_three_large)
  have ex: "annual_of (calculateSolarEnergy (Some [(''201201'', 4.111), (''201202'', 0.37),
      (''201213'', 3), (''201203'', 123.4567), (''201301'', 1)]) None None) ''2012'' = Some 767.63"
    using annual_is_running_total [of exact "[(''201201'', 4.111), (''201202'', 0.37),
      (''201213'', 3), (''201203'', 123.4567), (''201301'', 1)]" None None "''2012''"]
    by (simp add: calculators_exact energy_exact exact_sel year_energies_def running_annual_def
        skipped_def MONTH_KEY_def isDigit_def endsWith_def slice_def solar_energy_def
        toFixed2_def or_default_def DAYS_PER_MONTH_def Let_def)
  from small large ex show ?thesis by simp
qed

subsection \<open>Claim C7\<close>

text \<open>
  C7, as amended. For every samples object that is present, whatever its keys and
  numbers and whatever the parameters, both calculators return a result and raise no
  error; for the empty object the result is empty.
\<close>

theorem calculators_total_on_objects:
  "(\<exists>r. calculateSolarEnergy (Some d) area efficiency = Inr r)
   \<and> (\<exists>r. calculateWindEnergy (Some d) area efficiency = Inr r)
   \<and> calculateSolarEnergy (Some []) area efficiency = Inr Map.empty
   \<and> calculateWindEnergy (Some []) area efficiency = Inr Map.empty"
  by (simp add: calculateSolarEnergy_def calculateWindEnergy_def)

theorem calculators_total_on_objects_witness:
  "calculateSolarEnergy (Some []) None None = Inr Map.empty
   \<and> calculateWindEnergy (Some []) (Some 2) (Some 0.5) = Inr Map.empty"
  using calculators_total_on_objects [of "[]" None None]
    calculators_total_on_objects [of "[]" "Some 2" "Some 0.5"]
  by simp

text \<open>
  C7 as stated fails for a missing samples object: \<^verbatim>\<open>Object.keys(undefined)\<close> throws,
  so both calculators raise a TypeError where the claim has them return an empty result.
\<close>

theorem calculators_throw_on_missing_samples:
  "calculateSolarEnergy None None None = Inl TypeError
   \<and> calculateWindEnergy None None None = Inl TypeError"
  by (simp add: calculateSolarEnergy_def calculateWindEnergy_def)

subsection \<open>Claim C9\<close>

text \<open>
  C9. A key that does not consist of exactly six digits, or that ends in "13", is
  skipped by both calculators whatever number it holds: the result for a samples object
  with that key, anywhere in the iteration order, is the result for the object without
  it, so the key adds no month and changes no \<open>annual\<close>.
\<close>

theorem skipped_keys_leave_no_trace:
  assumes "\<not> (length key = 6 \<and> (\<forall>c \<in> set key. c \<in> set ''0123456789'')) \<or> endsWith key ''13''"
  shows "calculateSolarEnergy (Some (before @ (key, v) # after)) area efficiency =
           calculateSolarEnergy (Some (before @ after)) area efficiency
       \<and> calculateWindEnergy (Some (before @ (key, v) # after)) area efficiency =
           calculateWindEnergy (Some (before @ after)) area efficiency"
proof -
  have "skipped key"
    using assms by (auto simp: skipped_def MONTH_KEY_def isDigit_def list_all_iff)
  then show ?thesis
    by (simp add: calculateSolarEnergy_def calculateWindEnergy_def solar_step_gen wind_step_gen
        gen_step_skipped)
qed

text \<open>
  The annual-average key \<open>201213\<close> between two months, and a key that is not six digits
  after one month: the results hold the months only.
\<close>

theorem skipped_keys_leave_no_trace_witness:
  "calculateSolarEnergy (Some [(''201201'', 4), (''201213'', 99), (''201202'', 5)]) None None =
     Inr [''2012'' \<mapsto> \<lparr>annual = 54, months = [''01'' \<mapsto> 24, ''02'' \<mapsto> 30]\<rparr>]
   \<and> calculateWindEnergy (Some [(''201201'', 5), (''2012-02'', 99)]) None None =
     Inr [''2012'' \<mapsto> \<lparr>annual = 27.71, months = [''01'' \<mapsto> 27.71]\<rparr>]"
proof -
  have a: "\<not> (length ''201213'' = 6 \<and> (\<forall>c \<in> set ''201213''. c \<in> set ''0123456789''))
         \<or> endsWith ''201213'' ''13''"
    by (simp add: endsWith_def)
  have b: "\<not> (length ''2012-02'' = 6 \<and> (\<forall>c \<in> set ''2012-02''. c \<in> set ''0123456789''))
         \<or> endsWith ''2012-02'' ''13''"
    by simp
  show ?thesis
    using skipped_keys_leave_no_trace [OF a, of "[(''201201'', 4)]" 99 "[(''201202'', 5)]" None None]
      skipped_keys_leave_no_trace [OF b, of "[(''201201'', 5)]" 99 "[]" None None]
    by (simp add: calc_eval)
qed

section \<open>The cache store\<close>

subsection \<open>Reading\<close>

text \<open>
  A read never fails: it yields the entries the process can read, and it leaves them,
  the entries the file retains and the permissions as they were (it may create the file
  when there is none).
\<close>

lemma readDatabase_stored:
  "readDatabase w = (r, w') \<Longrightarrow>
     r = Inr (stored w) \<and> stored w' = stored w \<and> retained w' = retained w
     \<and> readable w' = readable w \<and> writable w' = writable w \<and> tears w' = tears w"
  by (auto simp: readDatabase_def initializeDatabase_def writeFileSync_def readFileSync_def
      JSON_parse_def Let_def log_event_def stored_def retained_def
      split: db_file.splits content.splits if_splits)

lemma readDatabase_rows:
  "disk w = File (Json rows) \<Longrightarrow> readable w \<Longrightarrow>
     readDatabase w = (Inr rows, log_event DbRead w)"
  by (simp add: readDatabase_def initializeDatabase_def readFileSync_def JSON_parse_def Let_def
      log_event_def)


subsection \<open>Nearness and the invariant\<close>

lemma near_sym: "near a b = near b a"
  by (simp add: near_def close_to_def abs_minus_commute)

lemma near_refl: "near a a"
  by (simp add: near_def close_to_def)

lemma store_inv_filter: "store_inv es \<Longrightarrow> store_inv (filter P es)"
  by (induction es) (auto simp: list_all_iff)

lemma store_inv_snoc:
  "store_inv (es @ [e]) = (store_inv es \<and> list_all (\<lambda>x. \<not> near x e) es)"
  by (induction es) (auto simp: list_all_iff)

lemma store_inv_stored: "store_inv (retained w) \<Longrightarrow> store_inv (stored w)"
  by (simp add: stored_def)

lemma find_after_filter:
  "P e \<Longrightarrow> List.find P (filter (\<lambda>x. \<not> P x) xs @ [e]) = Some e"
  by (induction xs) simp_all

subsection \<open>Saving\<close>

text \<open>
  The two outcomes of a save. It returns the entry, and the file retains the entries
  the save could read that were not near it, followed by the entry. Or the write fails
  and the save throws; the file then retains what it retained, or nothing when the
  failed write cut it off. The permissions stay as they were.
\<close>

lemma saveEnergyData_stored:
  assumes "saveEnergyData e w = (r, w')"
  shows "readable w' = readable w \<and>
       ((r = Inr e \<and> writable w \<and> retained w' = filter (\<lambda>x. \<not> near x e) (stored w) @ [e])
        \<or> (r = Inl FsError \<and> \<not> writable w \<and> \<not> tears w \<and> retained w' = retained w)
        \<or> (r = Inl FsError \<and> \<not> writable w \<and> tears w \<and> retained w' = []))"
proof -
  obtain w1 where rd: "readDatabase w = (Inr (stored w), w1)"
    and s1: "retained w1 = retained w" and rr: "readable w1 = readable w"
    and wr: "writable w1 = writable w" and tr: "tears w1 = tears w"
    using readDatabase_stored [of w] by (cases "readDatabase w") auto
  show ?thesis
    using assms s1 rr wr tr
    by (auto simp: saveEnergyData_def rd writeDatabase_def writeFileSync_def Let_def
        log_event_def retained_def near_def split: if_splits)
qed

lemma saveEnergyData_succeeds: "writable w \<Longrightarrow> fst (saveEnergyData e w) = Inr e"
  using saveEnergyData_stored [of e w "fst (saveEnergyData e w)" "snd (saveEnergyData e w)"]
  by auto

lemma save_into_two_entries:
  "saveEnergyData nearby_entry two_entries =
     (Inr nearby_entry,
      \<lparr>disk = File (Json [distant_entry, nearby_entry]), readable = True, writable = True,
       tears = False, trace = [DbRead, DbWrite [distant_entry, nearby_entry]]\<rparr>)"
  by (simp add: store_eval two_entries_def sample_coords Let_def)

text \<open>
  On the file that can be written and not read, the save reads nothing, so it writes
  the new entry alone, and the file still cannot be read.
\<close>

lemma save_into_write_only:
  "saveEnergyData nearby_entry write_only =
     (Inr nearby_entry,
      \<lparr>disk = File (Json [nearby_entry]), readable = False, writable = True,
       tears = False, trace = [DbRead, DbWrite [nearby_entry]]\<rparr>)"
  by (simp add: store_eval write_only_def two_entries_def sample_coords Let_def)

subsection \<open>Claim C4\<close>

text \<open>
  C4. Two entries are near when their latitudes differ by less than 0.01 and their
  longitudes differ by less than 0.01; the invariant says that no two entries the file
  retains are near. For every store that satisfies the invariant and every entry, the
  store after \<open>saveEnergyData\<close> satisfies it. The save returns the entry whenever the file
  system accepts the write; when it returns, the file retains the entries the save read
  that were not near the new one, in their order, followed by the new one, and the new
  one is the only retained entry near itself. When the write fails, the file retains
  what it retained, or nothing when the failed write cut it off.
\<close>

theorem save_preserves_store_invariant:
  assumes inv: "store_inv (retained w)" and sv: "saveEnergyData e w = (r, w')"
  shows "store_inv (retained w')
       \<and> store_inv (stored w')
       \<and> (writable w \<longrightarrow> r = Inr e)
       \<and> (r = Inr e \<longrightarrow>
            retained w' = filter (\<lambda>x. \<not> near x e) (stored w) @ [e]
            \<and> filter (\<lambda>x. near x e) (retained w') = [e])
       \<and> (r \<noteq> Inr e \<longrightarrow> retained w' = (if tears w then [] else retained w))"
proof -
  from saveEnergyData_stored [OF sv]
  consider (ok) "r = Inr e" "retained w' = filter (\<lambda>x. \<not> near x e) (stored w) @ [e]"
    | (fail) "r = Inl FsError" "retained w' = (if tears w then [] else retained w)"
        "\<not> writable w"
    by auto
  then show ?thesis
  proof cases
    case ok
    have "store_inv (stored w)"
      using inv by (rule store_inv_stored)
    then have "store_inv (retained w')"
      by (simp add: ok store_inv_snoc store_inv_filter list_all_iff)
    moreover have "filter (\<lambda>x. near x e) (retained w') = [e]"
      by (simp add: ok near_refl)
    ultimately show ?thesis using ok by (simp add: store_inv_stored)
  next
    case fail
    then have "store_inv (retained w')" using inv by simp
    then show ?thesis using fail by (simp add: store_inv_stored)
  qed
qed

text \<open>
  A store with an entry at (43.65, -79.38) and one at (10, 10); saving an entry at
  (43.655, -79.385) replaces the first and keeps the second.
\<close>

theorem save_preserves_store_invariant_witness:
  "store_inv (retained two_entries)
   \<and> retained (snd (saveEnergyData nearby_entry two_entries)) = [distant_entry, nearby_entry]
   \<and> store_inv (retained (snd (saveEnergyData nearby_entry two_entries)))
   \<and> filter (\<lambda>x. near x nearby_entry) (retained (snd (saveEnergyData nearby_entry two_entries))) =
       [nearby_entry]"
proof -
  have inv: "store_inv (retained two_entries)"
    by (simp add: retained_def two_entries_def near_def close_to_def sample_coords)
  show ?thesis
    using save_preserves_store_invariant [OF inv save_into_two_entries] inv
    by (simp add: save_into_two_entries retained_def near_def close_to_def sample_coords)
qed

subsection \<open>Claim C5\<close>

text \<open>
  C5, as amended. For every store whose file the process can read once it is there
  (a missing file and a file that does not parse included) and every entry: when
  \<open>saveEnergyData\<close> returns, it returns the entry, and \<open>findByCoordinates\<close> at the entry's
  latitude and longitude with the default tolerance, on the store the save left, returns
  that entry, with all its fields. (The save returns whenever the write succeeds: lemma
  \<open>saveEnergyData_succeeds\<close>.)
\<close>

theorem save_then_find_roundtrip:
  assumes rd: "readable w" and sv: "saveEnergyData e w = (Inr r, w')"
  shows "r = e \<and> fst (findByCoordinates (latitude e) (longitude e) None w') = Inr (Some e)"
proof -
  from saveEnergyData_stored [OF sv]
  have r: "r = e" and st: "retained w' = filter (\<lambda>x. \<not> near x e) (stored w) @ [e]"
    and rd': "readable w' = readable w" by auto
  have vis: "stored w' = retained w'"
    using rd rd' by (simp add: stored_def)
  obtain w2 where rdb: "readDatabase w' = (Inr (stored w'), w2)"
    using readDatabase_stored [of w'] by (cases "readDatabase w'") auto
  have "List.find (\<lambda>x. near x e) (filter (\<lambda>x. \<not> near x e) (stored w) @ [e]) = Some e"
    by (rule find_after_filter) (rule near_refl)
  then show ?thesis
    using r by (simp add: findByCoordinates_def rdb vis st or_default_def near_def)
qed

theorem save_then_find_roundtrip_witness:
  "readable two_entries
   \<and> fst (findByCoordinates (latitude nearby_entry) (longitude nearby_entry) None
          (snd (saveEnergyData nearby_entry two_entries))) = Inr (Some nearby_entry)"
proof -
  have rd: "readable two_entries" by (simp add: two_entries_def)
  show ?thesis
    using save_then_find_roundtrip [OF rd save_into_two_entries] rd
    by (simp add: save_into_two_entries)
qed

text \<open>
  C5 as stated fails on a store whose file can be written and not read: the save
  returns the entry, having written it, and the lookup that follows cannot read the
  file, takes the store for empty and returns nothing.
\<close>

theorem write_only_store_breaks_roundtrip:
  "fst (saveEnergyData nearby_entry write_only) = Inr nearby_entry
   \<and> retained (snd (saveEnergyData nearby_entry write_only)) = [nearby_entry]
   \<and> fst (findByCoordinates (latitude nearby_entry) (longitude nearby_entry) None
          (snd (saveEnergyData nearby_entry write_only))) = Inr None"
proof -
  have "fst (findByCoordinates (latitude nearby_entry) (longitude nearby_entry) None
          \<lparr>disk = File (Json [nearby_entry]), readable = False, writable = True,
           tears = False, trace = [DbRead, DbWrite [nearby_entry]]\<rparr>) = Inr None"
    by (simp add: store_eval)
  then show ?thesis
    by (simp add: save_into_write_only retained_def)
qed

subsection \<open>Claim C6\<close>

text \<open>
  C6. No read of the store surfaces an error: \<open>findByCoordinates\<close> and \<open>getAllData\<close>
  return a result for every state of the file. When the file is missing, unreadable or
  not parseable, \<open>findByCoordinates\<close> returns no entry and \<open>getAllData\<close> returns the
  empty list, which is what they return on a readable file that holds the empty array.
\<close>

theorem read_failure_is_empty_store:
  "(\<exists>found. fst (findByCoordinates lat lon tolerance w) = Inr found)
   \<and> (\<exists>rows. fst (getAllData w) = Inr rows)
   \<and> ((disk w = NoFile \<or> \<not> readable w \<or> disk w = File Garbage) \<longrightarrow>
        fst (findByCoordinates lat lon tolerance w) = Inr None
        \<and> fst (getAllData w) = Inr []
        \<and> fst (findByCoordinates lat lon tolerance w) =
            fst (findByCoordinates lat lon tolerance (w\<lparr>disk := File (Json []), readable := True\<rparr>))
        \<and> fst (getAllData w) = fst (getAllData (w\<lparr>disk := File (Json []), readable := True\<rparr>)))"
proof -
  obtain w1 where rd: "readDatabase w = (Inr (stored w), w1)"
    using readDatabase_stored [of w] by (cases "readDatabase w") auto
  have e: "readDatabase (w\<lparr>disk := File (Json []), readable := True\<rparr>) =
      (Inr [], log_event DbRead (w\<lparr>disk := File (Json []), readable := True\<rparr>))"
    by (rule readDatabase_rows) simp_all
  have "disk w = NoFile \<or> \<not> readable w \<or> disk w = File Garbage \<Longrightarrow> stored w = []"
    by (auto simp: stored_def retained_def)
  then show ?thesis
    by (auto simp: findByCoordinates_def getAllData_def rd e)
qed

text \<open>
  A file that does not parse, a file with two entries that cannot be read, and no file
  on a file system that refuses to create one.
\<close>

theorem read_failure_is_empty_store_witness:
  "fst (findByCoordinates 43 (- 79) None (world_of (File Garbage) True True)) = Inr None
   \<and> fst (getAllData write_only) = Inr []
   \<and> fst (getAllData (world_of NoFile True False)) = Inr []"
  using read_failure_is_empty_store [of 43 "- 79" None "world_of (File Garbage) True True"]
    read_failure_is_empty_store [of 0 0 None write_only]
    read_failure_is_empty_store [of 0 0 None "world_of NoFile True False"]
  by (simp add: world_of_def write_only_def two_entries_def)

section \<open>The request handlers\<close>

subsection \<open>Validation on the GET routes\<close>

text \<open>
  \<open>validateCoordinates\<close> accepts exactly the pairs that parse to finite numbers with the
  latitude in [-90, 90] and the longitude in [-180, 180], the ends included, and
  \<open>getEnergyData\<close> answers 400 to every other pair without touching the store or the
  upstream service.
\<close>

lemma validateCoordinates_Valid_iff:
  "validateCoordinates pf lat lon = Valid a b \<longleftrightarrow>
     pf lat = Num a \<and> pf lon = Num b \<and> - 90 \<le> a \<and> a \<le> 90 \<and> - 180 \<le> b \<and> b \<le> 180"
  by (cases "pf lat"; cases "pf lon") (auto simp: validateCoordinates_def isNaN_def Let_def)

lemma validateCoordinates_boundaries:
  "validateCoordinates sample_parseFloat ''90'' ''-180'' = Valid 90 (- 180)"
  "validateCoordinates sample_parseFloat ''-90'' ''180'' = Valid (- 90) 180"
  "validateCoordinates sample_parseFloat ''Infinity'' ''10'' =
     Invalid ''Latitude must be between -90 and 90''"
  by (simp_all add: validateCoordinates_def sample_parseFloat_def isNaN_def)

lemma getEnergyData_rejects_invalid:
  assumes "\<not> (\<exists>a b. parseFloat e lat = Num a \<and> parseFloat e lon = Num b
             \<and> - 90 \<le> a \<and> a \<le> 90 \<and> - 180 \<le> b \<and> b \<le> 180)"
  shows "\<exists>msg. getEnergyData e energy_type lat lon w = ((400, ErrorBody msg), w)"
proof (cases "validateCoordinates (parseFloat e) lat lon")
  case (Valid a b)
  then show ?thesis using assms by (simp add: validateCoordinates_Valid_iff)
next
  case (Invalid msg)
  then show ?thesis by (simp add: getEnergyData_def getEnergyData_try_def)
qed

subsection \<open>Claim C2\<close>

lemma calculate_response_status:
  "calculate_response lat lon a se we en = Inr (st, bd) \<Longrightarrow> st = 200 \<or> st = 500"
  by (auto simp: calculate_response_def split: option.splits if_splits sum.splits)

text \<open>
  Whatever the upstream service and the store do, \<open>calculateEnergy\<close> answers a request
  whose latitude and longitude are truthy with 200 or 500: no such request is rejected
  with 400, in range or not.
\<close>

lemma calculateEnergy_truthy_status:
  assumes "truthy (body_latitude b)" "truthy (body_longitude b)"
  shows "fst (fst (calculateEnergy e b w)) = 200 \<or> fst (fst (calculateEnergy e b w)) = 500"
proof (cases "calculateEnergy_try e b w")
  case (Pair r w')
  show ?thesis
  proof (cases r)
    case (Inl err)
    then show ?thesis using Pair by (simp add: calculateEnergy_def)
  next
    case (Inr resp)
    obtain st bd where resp: "resp = (st, bd)" by (cases resp)
    have "\<exists>lat lon a se we en. calculate_response lat lon a se we en = Inr (st, bd)"
      using Pair Inr resp assms
      by (auto simp: calculateEnergy_try_def Let_def split: prod.splits sum.splits) blast
    then have "st = 200 \<or> st = 500"
      using calculate_response_status by blast
    then show ?thesis using Pair Inr resp by (simp add: calculateEnergy_def)
  qed
qed

text \<open>
  C2 fails on the code for the calculate operation. The request body
  \<open>{latitude: 100, longitude: 10}\<close> on an empty store, with an upstream service that
  answers: \<open>calculateEnergy\<close> looks the coordinate up, fetches for latitude 100, writes an
  entry with latitude 100 to the store and answers 200. \<open>getEnergyData\<close> answers the same
  coordinates with 400 and touches nothing.
\<close>

theorem calculateEnergy_skips_range_check:
  "calculateEnergy sample_env (sample_body (JNumber 100) (JNumber 10) None) empty_world =
     ((200, CalculateBody 100 10 (solar (sample_entry 100 10)) (wind (sample_entry 100 10)) None),
      \<lparr>disk = File (Json [sample_entry 100 10]), readable = True, writable = True,
       tears = False,
       trace = [DbRead, NasaFetch 100 10, DbRead, DbWrite [sample_entry 100 10]]\<rparr>)
   \<and> getEnergyData sample_env ''both'' ''100'' ''10'' empty_world =
     ((400, ErrorBody ''Latitude must be between -90 and 90''), empty_world)"
  by (simp add: handler_eval store_eval sample_eval sample_calc or_default_def Let_def)

theorem calculateEnergy_skips_range_check_witness:
  "fst (fst (calculateEnergy sample_env (sample_body (JNumber 100) (JNumber 10) None) empty_world))
     = 200
   \<and> fst (fst (getEnergyData sample_env ''both'' ''100'' ''10'' empty_world)) = 400"
  using calculateEnergy_skips_range_check by simp

subsection \<open>Claim C8\<close>



subsection \<open>Claim C10\<close>

text \<open>
  C10. A calculate request whose latitude or longitude is 0 or another falsy value (left
  out, \<open>null\<close>, \<open>false\<close>, the empty string) is answered with status 400 and the error
  "Latitude and longitude are required", in the state the request came in: nothing is
  read, fetched or written.
\<close>

theorem calculate_rejects_falsy_coordinates:
  assumes "body_latitude b \<in> {JNumber 0, JUndefined, JNull, JFalse, JEmptyString}
         \<or> body_longitude b \<in> {JNumber 0, JUndefined, JNull, JFalse, JEmptyString}"
  shows "calculateEnergy e b w = ((400, ErrorBody ''Latitude and longitude are required''), w)"
proof -
  have "\<not> truthy (body_latitude b) \<or> \<not> truthy (body_longitude b)"
    using assms by auto
  then show ?thesis
    by (auto simp: calculateEnergy_def calculateEnergy_try_def Let_def)
qed

text \<open>A point on the equator, and a request without a longitude.\<close>

theorem calculate_rejects_falsy_coordinates_witness:
  "calculateEnergy sample_env (sample_body (JNumber 0) (JNumber 10) None) empty_world =
     ((400, ErrorBody ''Latitude and longitude are required''), empty_world)
   \<and> calculateEnergy sample_env (sample_body (JNumber 51.5) JUndefined None) empty_world =
     ((400, ErrorBody ''Latitude and longitude are required''), empty_world)"
  using calculate_rejects_falsy_coordinates
      [of "sample_body (JNumber 0) (JNumber 10) None" sample_env empty_world]
    calculate_rejects_falsy_coordinates
      [of "sample_body (JNumber 51.5) JUndefined None" sample_env empty_world]
  by (simp add: sample_body_def)

end
